theory Spec2Isabelle
  imports Main "HOL-Library.Sublist"
begin

section \<open>The write command of the Vault CLI: the MFA confirmation handshake\<close>

text \<open>
  A shallow embedding of \<^verbatim>\<open>command/write.go\<close>: \<^verbatim>\<open>Run\<close>,
  \<^verbatim>\<open>isInteractiveEnabled\<close>, \<^verbatim>\<open>getMFAMethodInfo\<close> and \<^verbatim>\<open>validateMFA\<close>.
  Everything the command does to the outside world (messages on the UI, the secret prompt,
  writes through the API client, rendering of a response) is recorded as an event of a
  trace, in the order of the calls. A Go \<^verbatim>\<open>error\<close> is its message, a pointer is an
  \<open>option\<close> (\<open>None\<close> is \<^verbatim>\<open>nil\<close>), and a nil dereference is the outcome \<open>Panic\<close>.
\<close>

subsection \<open>Data of the response\<close>

text \<open>
  Modelled from the spec: the declarations of \<^verbatim>\<open>logical.MFAMethodID\<close>,
  \<^verbatim>\<open>logical.MFAConstraintAny\<close>, \<^verbatim>\<open>logical.MFARequirement\<close>, \<^verbatim>\<open>api.SecretAuth\<close>
  and \<^verbatim>\<open>api.Secret\<close> are not among the sources; the records have the fields that
  \<^verbatim>\<open>write.go\<close> reads. The methods of a constraint are held by pointer, as the
  constraints are (\<^verbatim>\<open>map[string]*logical.MFAConstraintAny\<close>).
\<close>

record MFAMethodID =
  Type :: string
  ID :: string
  UsesPasscode :: bool

record MFAConstraintAny =
  Any :: "MFAMethodID option list"

text \<open>
  The Go map of constraints is an association list with distinct keys; the order of the
  list is the order in which \<^verbatim>\<open>range\<close> visits the map, and \<^verbatim>\<open>len\<close> is its length.
\<close>

type_synonym constraints = "(string \<times> MFAConstraintAny option) list"

record MFARequirement =
  MFARequestID :: string
  MFAConstraints :: constraints

record SecretAuth =
  MFARequirement :: "MFARequirement option"

text \<open>A value of a request or response body (\<^verbatim>\<open>interface{}\<close>): a string, or the
  \<^verbatim>\<open>map[string][]string\<close> of an MFA payload.\<close>

datatype val = VString string | VPayload "string \<rightharpoonup> string list"

type_synonym body = "string \<rightharpoonup> val"

record Secret =
  Auth :: "SecretAuth option"
  Data :: "(string \<times> string) list"

subsection \<open>Data of the command\<close>

record MFAMethodInfo =
  methodID :: string
  methodType :: string
  usePasscode :: bool

datatype event =
    UIError string
  | UIWarn string
  | UIInfo string
  | UIAskSecret string
  | LogicalWrite string body
  | OutputSecretCall Secret
  | PrintRawFieldCall Secret string

type_synonym trace = "event list"

datatype outcome = Exit int | Panic

text \<open>
  What the command is given: its flags after parsing, and the functions and collaborators
  that \<^verbatim>\<open>write.go\<close> calls and does not define. A collaborator that may answer
  differently from call to call (\<^verbatim>\<open>c.UI.AskSecret\<close>, \<^verbatim>\<open>c.Client()\<close>,
  \<^verbatim>\<open>client.Logical().Write\<close>, \<^verbatim>\<open>OutputSecret\<close>, \<^verbatim>\<open>PrintRawField\<close>) takes the
  trace of everything that happened before the call. A pair \<open>(v, e)\<close> is a Go result
  \<^verbatim>\<open>(v, err)\<close>, with \<open>e = None\<close> for \<^verbatim>\<open>err == nil\<close>.
\<close>

record env =
  flagForce :: bool
  flagField :: string
  flagNonInteractive :: bool
  IsTerminal :: bool
  Format :: string
  Parse :: "string list \<Rightarrow> string option \<times> string list"
  sanitizePath :: "string \<Rightarrow> string"
  parseArgsData :: "string list \<Rightarrow> body \<times> string option"
  wrapAtLength :: "string \<Rightarrow> string"
  Quote :: "string \<Rightarrow> string"
  AskSecret :: "trace \<Rightarrow> string \<Rightarrow> string \<times> string option"
  Client :: "trace \<Rightarrow> string option"
  Write :: "trace \<Rightarrow> string \<Rightarrow> body \<Rightarrow> Secret option \<times> string option"
  OutputSecret :: "trace \<Rightarrow> Secret \<Rightarrow> int"
  PrintRawField :: "trace \<Rightarrow> Secret \<Rightarrow> string \<Rightarrow> int"

subsection \<open>The functions of \<^verbatim>\<open>write.go\<close>\<close>

text \<open>\<^verbatim>\<open>isInteractiveEnabled\<close> (lines 180-190).\<close>

definition isInteractiveEnabled :: "env \<Rightarrow> nat \<Rightarrow> bool" where
  "isInteractiveEnabled c mfaConstraintLen =
     (if mfaConstraintLen \<noteq> 1 \<or> \<not> IsTerminal c then False
      else if \<not> flagNonInteractive c then True
      else False)"

text \<open>\<^verbatim>\<open>getMFAMethodInfo\<close> (lines 194-208): the loop returns in its first iteration.
  \<^verbatim>\<open>MFAMethodInfo{}\<close> is the record of zero values.\<close>

datatype panic = NilDereference

definition zeroMFAMethodInfo :: MFAMethodInfo where
  "zeroMFAMethodInfo = \<lparr>methodID = '''', methodType = '''', usePasscode = False\<rparr>"

fun getMFAMethodInfo :: "constraints \<Rightarrow> panic + MFAMethodInfo" where
  "getMFAMethodInfo [] = Inr zeroMFAMethodInfo"
| "getMFAMethodInfo ((_, None) # _) = Inl NilDereference"
| "getMFAMethodInfo ((_, Some mfaConstraint) # _) =
     (if length (Any mfaConstraint) \<noteq> 1 then Inr zeroMFAMethodInfo
      else (case Any mfaConstraint ! 0 of
              None \<Rightarrow> Inl NilDereference
            | Some m \<Rightarrow>
                Inr \<lparr>methodID = ID m, methodType = Type m, usePasscode = UsesPasscode m\<rparr>))"

text \<open>The rendering of a response that is not nil (lines 172-177 of \<^verbatim>\<open>Run\<close>, and the
  same statements at lines 256-261 of \<^verbatim>\<open>validateMFA\<close>).\<close>

definition renderSecret :: "env \<Rightarrow> trace \<Rightarrow> Secret \<Rightarrow> trace \<times> outcome" where
  "renderSecret c t secret =
     (if flagField c \<noteq> ''''
      then (t @ [PrintRawFieldCall secret (flagField c)],
            Exit (PrintRawField c t secret (flagField c)))
      else (t @ [OutputSecretCall secret], Exit (OutputSecret c t secret)))"

definition validatePath :: string where
  "validatePath = ''sys/mfa/validate''"

definition successMessage :: "string \<Rightarrow> string" where
  "successMessage path = ''Success! Data written to: '' @ path"

text \<open>The body of the confirmation request (lines 225-227 and 237-240).\<close>

definition mfaBody :: "string \<Rightarrow> MFAMethodInfo \<Rightarrow> string \<Rightarrow> body" where
  "mfaBody reqID methodInfo passcode =
     [''mfa_request_id'' \<mapsto> VString reqID,
      ''mfa_payload'' \<mapsto> VPayload [methodID methodInfo \<mapsto> [passcode]]]"

text \<open>\<^verbatim>\<open>validateMFA\<close>, lines 224-261: what follows the collection of the passcode.\<close>

definition validateMFA_submit ::
  "env \<Rightarrow> trace \<Rightarrow> string \<Rightarrow> MFAMethodInfo \<Rightarrow> string \<Rightarrow> trace \<times> outcome" where
  "validateMFA_submit c t reqID methodInfo passcode =
     (case Client c t of
        Some err \<Rightarrow> (t @ [UIError err], Exit 2)
      | None \<Rightarrow>
          (let body = mfaBody reqID methodInfo passcode;
               t1 = t @ [LogicalWrite validatePath body]
           in case Write c t validatePath body of
                (secret, Some err) \<Rightarrow>
                  (case secret of
                     Some s \<Rightarrow> (t1 @ [UIError err, OutputSecretCall s], Exit 2)
                   | None \<Rightarrow> (t1 @ [UIError err], Exit 2))
              | (None, None) \<Rightarrow>
                  (if Format c = ''table''
                   then (t1 @ [UIInfo (successMessage validatePath)], Exit 0)
                   else (t1, Exit 0))
              | (Some s, None) \<Rightarrow> renderSecret c t1 s))"

definition passcodePrompt :: "env \<Rightarrow> MFAMethodInfo \<Rightarrow> string" where
  "passcodePrompt c methodInfo =
     ''Enter the passphrase for methodID '' @ Quote c (methodID methodInfo) @
     '' of type '' @ Quote c (methodType methodInfo) @ '':''"

definition promptFailedMessage :: "env \<Rightarrow> string \<Rightarrow> string" where
  "promptFailedMessage c err =
     ''failed to read the passphrase with error '' @ Quote c err @
     ''. please validate the login by sending a request to sys/mfa/validate''"

definition pushMessage :: string where
  "pushMessage =
     ''Asking Vault to perform MFA validation with upstream service. '' @
     ''You should receive a push notification in your authenticator app shortly''"

text \<open>\<^verbatim>\<open>validateMFA\<close> (lines 210-262). The passcode of a method that uses none is the
  zero value of \<^verbatim>\<open>var passcode string\<close>.\<close>

definition validateMFA :: "env \<Rightarrow> trace \<Rightarrow> string \<Rightarrow> MFAMethodInfo \<Rightarrow> trace \<times> outcome" where
  "validateMFA c t reqID methodInfo =
     (if usePasscode methodInfo then
        (let prompt = passcodePrompt c methodInfo;
             t1 = t @ [UIAskSecret prompt]
         in case AskSecret c t prompt of
              (_, Some err) \<Rightarrow> (t1 @ [UIError (promptFailedMessage c err)], Exit 2)
            | (passcode, None) \<Rightarrow> validateMFA_submit c t1 reqID methodInfo passcode)
      else validateMFA_submit c (t @ [UIWarn pushMessage]) reqID methodInfo '''')"

definition deferMessage :: "env \<Rightarrow> string" where
  "deferMessage c =
     wrapAtLength c
       (''A login request was issued that is subject to '' @
        ''MFA validation. Please make sure to validate the login by sending another '' @
        ''request to sys/mfa/validate endpoint.'') @ [CHR 0x0A]"

text \<open>\<^verbatim>\<open>Run\<close>, lines 158-177: the response of the write is a secret.\<close>

definition Run_secret :: "env \<Rightarrow> trace \<Rightarrow> Secret \<Rightarrow> trace \<times> outcome" where
  "Run_secret c t secret =
     (case Auth secret of
        None \<Rightarrow> renderSecret c t secret
      | Some auth \<Rightarrow>
          (case MFARequirement auth of
             None \<Rightarrow> renderSecret c t secret
           | Some req \<Rightarrow>
               (if isInteractiveEnabled c (length (MFAConstraints req)) then
                  (case getMFAMethodInfo (MFAConstraints req) of
                     Inl p \<Rightarrow> (t, Panic)
                   | Inr methodInfo \<Rightarrow>
                       (if methodID methodInfo \<noteq> ''''
                        then validateMFA c t (MFARequestID req) methodInfo
                        else renderSecret c (t @ [UIWarn (deferMessage c)]) secret))
                else renderSecret c (t @ [UIWarn (deferMessage c)]) secret)))"

text \<open>\<^verbatim>\<open>Run\<close> (lines 104-178). \<open>Parse\<close> gives the error of \<^verbatim>\<open>f.Parse(args)\<close> and
  the remaining arguments \<^verbatim>\<open>f.Args()\<close>. The message for too few arguments prints
  their number, which is 0 there.\<close>

definition Run :: "env \<Rightarrow> string list \<Rightarrow> trace \<times> outcome" where
  "Run c args0 =
     (case Parse c args0 of
        (Some err, _) \<Rightarrow> ([UIError err], Exit 1)
      | (None, args) \<Rightarrow>
          if length args < 1
          then ([UIError ''Not enough arguments (expected 1, got 0)''], Exit 1)
          else if length args = 1 \<and> \<not> flagForce c
          then ([UIError ''Must supply data or use -force''], Exit 1)
          else
            (let path = sanitizePath c (args ! 0) in
             case parseArgsData c (drop 1 args) of
               (_, Some err) \<Rightarrow> ([UIError (''Failed to parse K=V data: '' @ err)], Exit 1)
             | (data, None) \<Rightarrow>
                 (case Client c [] of
                    Some err \<Rightarrow> ([UIError err], Exit 2)
                  | None \<Rightarrow>
                      (let t1 = [LogicalWrite path data]
                       in case Write c [] path data of
                            (secret, Some err) \<Rightarrow>
                              (let t2 = t1 @ [UIError (''Error writing data to '' @ path @
                                                      '': '' @ err)]
                               in case secret of
                                    Some s \<Rightarrow> (t2 @ [OutputSecretCall s], Exit 2)
                                  | None \<Rightarrow> (t2, Exit 2))
                          | (None, None) \<Rightarrow>
                              (if Format c = ''table''
                               then (t1 @ [UIInfo (successMessage path)], Exit 0)
                               else (t1, Exit 0))
                          | (Some s, None) \<Rightarrow> Run_secret c t1 s))))"

subsection \<open>Reading a trace\<close>

text \<open>The writes through the client and the secret prompts of a trace, in order, and the
  events that a call adds to the trace it was given.\<close>

fun writes :: "trace \<Rightarrow> (string \<times> body) list" where
  "writes [] = []"
| "writes (LogicalWrite path b # t) = (path, b) # writes t"
| "writes (_ # t) = writes t"

fun prompts :: "trace \<Rightarrow> string list" where
  "prompts [] = []"
| "prompts (UIAskSecret msg # t) = msg # prompts t"
| "prompts (_ # t) = prompts t"

definition emitted :: "trace \<Rightarrow> trace \<times> outcome \<Rightarrow> trace" where
  "emitted t r = drop (length t) (fst r)"

text \<open>\<open>precedes a b t\<close>: an occurrence of \<open>a\<close> in \<open>t\<close> comes before an occurrence of
  \<open>b\<close>.\<close>

fun precedes :: "'a \<Rightarrow> 'a \<Rightarrow> 'a list \<Rightarrow> bool" where
  "precedes a b [] = False"
| "precedes a b (x # xs) = (if x = a then b \<in> set xs else precedes a b xs)"

subsection \<open>The decision of the specification\<close>

text \<open>
  The specification describes the eligibility check as a function
  \<^verbatim>\<open>evaluate_requirement\<close> with the results \<^verbatim>\<open>AutoResolve(method)\<close> and \<^verbatim>\<open>Defer\<close>.
  \<open>evaluate_requirement_spec\<close> follows its words: \<open>AutoResolve\<close> when the session is
  interactive, the requirement has exactly one constraint and that constraint has exactly
  one method. The source has no such function: \<open>enact\<close> says what \<^verbatim>\<open>Run\<close> does for
  each decision, the call of \<^verbatim>\<open>validateMFA\<close> for \<open>AutoResolve\<close>, the warning and the
  rendering of the original response for \<open>Defer\<close>.
\<close>

datatype Decision = AutoResolve MFAMethodID | Defer

definition interactiveSession :: "env \<Rightarrow> bool" where
  "interactiveSession c = (IsTerminal c \<and> \<not> flagNonInteractive c)"

definition evaluate_requirement_spec :: "MFARequirement \<Rightarrow> bool \<Rightarrow> Decision" where
  "evaluate_requirement_spec req interactive =
     (if interactive then
        (case MFAConstraints req of
           [(name, Some ca)] \<Rightarrow> (case Any ca of [Some m] \<Rightarrow> AutoResolve m | _ \<Rightarrow> Defer)
         | _ \<Rightarrow> Defer)
      else Defer)"

definition methodInfoOf :: "MFAMethodID \<Rightarrow> MFAMethodInfo" where
  "methodInfoOf m = \<lparr>methodID = ID m, methodType = Type m, usePasscode = UsesPasscode m\<rparr>"

fun enact :: "env \<Rightarrow> trace \<Rightarrow> Secret \<Rightarrow> MFARequirement \<Rightarrow> Decision \<Rightarrow> trace \<times> outcome" where
  "enact c t secret req (AutoResolve m) =
     validateMFA c t (MFARequestID req) (methodInfoOf m)"
| "enact c t secret req Defer = renderSecret c (t @ [UIWarn (deferMessage c)]) secret"

text \<open>A requirement none of whose constraints or methods is a nil pointer.\<close>

definition noNil :: "constraints \<Rightarrow> bool" where
  "noNil cs =
     list_all (\<lambda>(name, mc). case mc of None \<Rightarrow> False
                              | Some ca \<Rightarrow> list_all (\<lambda>m. m \<noteq> None) (Any ca)) cs"

text \<open>The first event of \<^verbatim>\<open>validateMFA\<close>: the prompt, or the notice of a push.\<close>

definition collectEvent :: "env \<Rightarrow> MFAMethodInfo \<Rightarrow> event" where
  "collectEvent c methodInfo =
     (if usePasscode methodInfo then UIAskSecret (passcodePrompt c methodInfo)
      else UIWarn pushMessage)"

text \<open>\<open>collected c t methodInfo p\<close>: the passcode that \<^verbatim>\<open>validateMFA\<close> goes on with is
  \<open>p\<close>, the answer of a prompt that succeeded, or the empty string of a method that uses
  no passcode.\<close>

definition collected :: "env \<Rightarrow> trace \<Rightarrow> MFAMethodInfo \<Rightarrow> string \<Rightarrow> bool" where
  "collected c t methodInfo p =
     (if usePasscode methodInfo
      then AskSecret c t (passcodePrompt c methodInfo) = (p, None)
      else p = '''')"

text \<open>\<open>originalWrite c args0 path data secret\<close>: the arguments are accepted, the client is
  there, and the write of \<open>data\<close> to \<open>path\<close> (lines 104-149 of \<^verbatim>\<open>Run\<close>) succeeds with the
  response \<open>secret\<close>.\<close>

definition originalWrite :: "env \<Rightarrow> string list \<Rightarrow> string \<Rightarrow> body \<Rightarrow> Secret \<Rightarrow> bool" where
  "originalWrite c args0 path data secret =
     (case Parse c args0 of
        (Some err, _) \<Rightarrow> False
      | (None, args) \<Rightarrow>
          args \<noteq> [] \<and> (length args = 1 \<longrightarrow> flagForce c) \<and>
          path = sanitizePath c (args ! 0) \<and>
          parseArgsData c (drop 1 args) = (data, None) \<and>
          Client c [] = None \<and>
          Write c [] path data = (Some secret, None))"

subsection \<open>Concrete inputs\<close>

definition totpMethod :: MFAMethodID where
  "totpMethod = \<lparr>Type = ''totp'', ID = ''m1'', UsesPasscode = True\<rparr>"

definition pushMethod :: MFAMethodID where
  "pushMethod = \<lparr>Type = ''push'', ID = ''m1'', UsesPasscode = False\<rparr>"

definition noIdMethod :: MFAMethodID where
  "noIdMethod = \<lparr>Type = ''totp'', ID = '''', UsesPasscode = True\<rparr>"

definition requirementWith :: "constraints \<Rightarrow> MFARequirement" where
  "requirementWith cs = \<lparr>MFARequestID = ''rid'', MFAConstraints = cs\<rparr>"

definition secretWith :: "constraints \<Rightarrow> Secret" where
  "secretWith cs = \<lparr>Auth = Some \<lparr>MFARequirement = Some (requirementWith cs)\<rparr>, Data = []\<rparr>"

definition oneOf :: "MFAMethodID \<Rightarrow> constraints" where
  "oneOf m = [(''c1'', Some \<lparr>Any = [Some m]\<rparr>)]"

definition twoConstraints :: constraints where
  "twoConstraints =
     [(''c1'', Some \<lparr>Any = [Some totpMethod]\<rparr>), (''c2'', Some \<lparr>Any = [Some pushMethod]\<rparr>)]"

definition plainSecret :: Secret where
  "plainSecret = \<lparr>Auth = None, Data = [(''token'', ''t'')]\<rparr>"

text \<open>An interactive session in the table format: the prompt answers \<open>123456\<close>, the
  client is there, a write to the validate endpoint answers with an empty response and
  any other write with a response that carries a requirement.\<close>

definition exampleEnv :: env where
  "exampleEnv =
     \<lparr>flagForce = False, flagField = '''', flagNonInteractive = False, IsTerminal = True,
      Format = ''table'',
      Parse = (\<lambda>args. (None, args)),
      sanitizePath = (\<lambda>p. p),
      parseArgsData = (\<lambda>kvs. (Map.empty, None)),
      wrapAtLength = (\<lambda>s. s),
      Quote = (\<lambda>s. [CHR 0x22] @ s @ [CHR 0x22]),
      AskSecret = (\<lambda>t msg. (''123456'', None)),
      Client = (\<lambda>t. None),
      Write = (\<lambda>t path b. if path = validatePath then (None, None)
                            else (Some (secretWith (oneOf totpMethod)), None)),
      OutputSecret = (\<lambda>t s. 0),
      PrintRawField = (\<lambda>t s field. 0)\<rparr>"

text \<open>The same session with a prompt that fails, and with a validate endpoint that
  answers with an error and a response.\<close>

definition closedInputEnv :: env where
  "closedInputEnv = exampleEnv\<lparr>AskSecret := (\<lambda>t msg. ('''', Some ''EOF''))\<rparr>"

definition rejectingEnv :: env where
  "rejectingEnv = exampleEnv\<lparr>Write := (\<lambda>t path b. (Some plainSecret, Some ''denied''))\<rparr>"

text \<open>The same session with \<^verbatim>\<open>-field=missing\<close>, a validate endpoint that answers with
  a response, and a \<^verbatim>\<open>PrintRawField\<close> that returns 1 for a field that the response
  does not have.\<close>

definition missingFieldEnv :: env where
  "missingFieldEnv =
     exampleEnv
       \<lparr>flagField := ''missing'',
        Write := (\<lambda>t path b. if path = validatePath then (Some plainSecret, None)
                              else (Some (secretWith (oneOf totpMethod)), None)),
        PrintRawField := (\<lambda>t s field. if field \<in> fst ` set (Data s) then 0 else 1)\<rparr>"

section \<open>Properties\<close>

subsection \<open>Traces\<close>

lemma writes_append: "writes (t @ u) = writes t @ writes u"
  by (induction t rule: writes.induct) simp_all

lemma prompts_append: "prompts (t @ u) = prompts t @ prompts u"
  by (induction t rule: prompts.induct) simp_all

lemma emitted_append: "emitted t (t @ evs, out) = evs"
  by (simp add: emitted_def)

subsection \<open>What \<^verbatim>\<open>validateMFA\<close> adds to the trace\<close>

lemma renderSecret_emits:
  "\<exists>e. renderSecret c t s = (t @ [e], snd (renderSecret c t s)) \<and>
       writes [e] = [] \<and> prompts [e] = []"
  by (simp add: renderSecret_def)

lemma submit_emits:
  "\<exists>evs. validateMFA_submit c t reqID mi p = (t @ evs, snd (validateMFA_submit c t reqID mi p)) \<and>
     writes evs = (if Client c t = None then [(validatePath, mfaBody reqID mi p)] else []) \<and>
     prompts evs = []"
  by (auto simp: validateMFA_submit_def renderSecret_def Let_def
           split: option.splits prod.splits)

lemma validateMFA_collected:
  "collected c t mi p \<Longrightarrow>
   validateMFA c t reqID mi = validateMFA_submit c (t @ [collectEvent c mi]) reqID mi p"
  by (auto simp: collected_def validateMFA_def collectEvent_def Let_def)

lemma validateMFA_prompt_failed:
  "usePasscode mi \<Longrightarrow> AskSecret c t (passcodePrompt c mi) = (p, Some err) \<Longrightarrow>
   validateMFA c t reqID mi =
     (t @ [UIAskSecret (passcodePrompt c mi), UIError (promptFailedMessage c err)], Exit 2)"
  by (simp add: validateMFA_def Let_def)

lemma validateMFA_cases:
  "(\<exists>p. collected c t mi p) \<or>
   (usePasscode mi \<and> (\<exists>p err. AskSecret c t (passcodePrompt c mi) = (p, Some err)))"
proof (cases "usePasscode mi")
  case False
  then have "collected c t mi []" by (simp add: collected_def)
  then show ?thesis by blast
next
  case True
  obtain p e where a: "AskSecret c t (passcodePrompt c mi) = (p, e)"
    by (cases "AskSecret c t (passcodePrompt c mi)")
  show ?thesis
  proof (cases e)
    case None
    with a True have "collected c t mi p" by (simp add: collected_def)
    then show ?thesis by blast
  next
    case (Some err)
    with a True show ?thesis by blast
  qed
qed

lemma validateMFA_collected_emits:
  assumes "collected c t mi p"
  shows "\<exists>evs. validateMFA c t reqID mi =
             (t @ collectEvent c mi # evs, snd (validateMFA c t reqID mi)) \<and>
           writes evs = (if Client c (t @ [collectEvent c mi]) = None
                         then [(validatePath, mfaBody reqID mi p)] else []) \<and>
           prompts evs = []"
proof -
  let ?t1 = "t @ [collectEvent c mi]"
  obtain evs where
    1: "validateMFA_submit c ?t1 reqID mi p = (?t1 @ evs, snd (validateMFA_submit c ?t1 reqID mi p))"
    and 2: "writes evs = (if Client c ?t1 = None then [(validatePath, mfaBody reqID mi p)] else [])"
    and 3: "prompts evs = []"
    using submit_emits [of c ?t1 reqID mi p] by blast
  have "validateMFA c t reqID mi = validateMFA_submit c ?t1 reqID mi p"
    using assms by (rule validateMFA_collected)
  with 1 have "validateMFA c t reqID mi = (t @ collectEvent c mi # evs, snd (validateMFA c t reqID mi))"
    by simp
  with 2 3 show ?thesis by blast
qed

lemma validateMFA_emits:
  "\<exists>evs. validateMFA c t reqID mi = (t @ collectEvent c mi # evs, snd (validateMFA c t reqID mi)) \<and>
     length (writes evs) \<le> 1 \<and> prompts evs = []"
proof -
  consider p where "collected c t mi p"
    | p err where "usePasscode mi" "AskSecret c t (passcodePrompt c mi) = (p, Some err)"
    using validateMFA_cases [of c t mi] by blast
  then show ?thesis
  proof cases
    case 1
    from validateMFA_collected_emits [OF 1, of reqID] show ?thesis by auto
  next
    case 2
    then show ?thesis
      by (simp add: validateMFA_prompt_failed collectEvent_def)
  qed
qed

lemma writes_collectEvent: "writes (collectEvent c mi # evs) = writes evs"
  by (simp add: collectEvent_def)

subsection \<open>The two behaviours of \<^verbatim>\<open>Run\<close> are different\<close>

lemma push_neq_defer: "pushMessage \<noteq> deferMessage c"
proof
  assume "pushMessage = deferMessage c"
  then have "last pushMessage = last (deferMessage c)" by simp
  then show False by (simp add: pushMessage_def deferMessage_def)
qed

lemma auto_neq_defer:
  "validateMFA c t reqID mi \<noteq> renderSecret c (t @ [UIWarn (deferMessage c)]) secret"
proof
  assume eq: "validateMFA c t reqID mi = renderSecret c (t @ [UIWarn (deferMessage c)]) secret"
  obtain evs where 1: "fst (validateMFA c t reqID mi) = t @ collectEvent c mi # evs"
    using validateMFA_emits [of c t reqID mi] by (metis fst_conv)
  obtain e where 3: "fst (renderSecret c (t @ [UIWarn (deferMessage c)]) secret) = t @ [UIWarn (deferMessage c), e]"
    using renderSecret_emits [of c "t @ [UIWarn (deferMessage c)]" secret] by (metis append.assoc append_Cons append_Nil fst_conv)
  from eq 1 3 have "collectEvent c mi = UIWarn (deferMessage c)" by simp
  then show False using push_neq_defer [of c] by (simp add: collectEvent_def split: if_splits)
qed

subsection \<open>The eligibility check of \<^verbatim>\<open>Run\<close>\<close>

lemma getMFAMethodInfo_single:
  "getMFAMethodInfo [(name, Some ca)] =
     (case Any ca of
        [Some m] \<Rightarrow> Inr (methodInfoOf m)
      | [None] \<Rightarrow> Inl NilDereference
      | _ \<Rightarrow> Inr zeroMFAMethodInfo)"
  by (auto simp: methodInfoOf_def split: list.splits option.splits)

lemma Run_secret_defer_many:
  assumes "Auth secret = Some auth" and "MFARequirement auth = Some req"
    and "length (MFAConstraints req) \<noteq> 1"
  shows "Run_secret c t secret = renderSecret c (t @ [UIWarn (deferMessage c)]) secret"
  using assms by (simp add: Run_secret_def isInteractiveEnabled_def)

lemma Run_secret_defer_session:
  assumes "Auth secret = Some auth" and "MFARequirement auth = Some req"
    and "\<not> interactiveSession c"
  shows "Run_secret c t secret = renderSecret c (t @ [UIWarn (deferMessage c)]) secret"
  using assms by (auto simp: Run_secret_def isInteractiveEnabled_def interactiveSession_def)

lemma Run_secret_single:
  assumes "Auth secret = Some auth" and "MFARequirement auth = Some req"
    and "MFAConstraints req = [(name, Some ca)]" and "interactiveSession c"
  shows "Run_secret c t secret =
           (case Any ca of
              [Some m] \<Rightarrow>
                if ID m \<noteq> '''' then validateMFA c t (MFARequestID req) (methodInfoOf m)
                else renderSecret c (t @ [UIWarn (deferMessage c)]) secret
            | [None] \<Rightarrow> (t, Panic)
            | _ \<Rightarrow> renderSecret c (t @ [UIWarn (deferMessage c)]) secret)"
  using assms
  by (auto simp: Run_secret_def isInteractiveEnabled_def interactiveSession_def
        getMFAMethodInfo_single methodInfoOf_def zeroMFAMethodInfo_def
      split: list.splits option.splits)

lemma Run_originalWrite:
  "originalWrite c args0 path data secret \<Longrightarrow>
   Run c args0 = Run_secret c [LogicalWrite path data] secret"
  by (auto simp: originalWrite_def Run_def Let_def split: prod.splits option.splits)

lemma Run_secret_plain:
  "Auth secret = None \<or> (\<exists>auth. Auth secret = Some auth \<and> MFARequirement auth = None) \<Longrightarrow>
   Run_secret c t secret = renderSecret c t secret"
  by (auto simp: Run_secret_def)

lemma render_writes [simp]: "writes (emitted t (renderSecret c (t @ evs) s)) = writes evs"
  by (simp add: renderSecret_def emitted_def writes_append)

lemma render_prompts [simp]: "prompts (emitted t (renderSecret c (t @ evs) s)) = prompts evs"
  by (simp add: renderSecret_def emitted_def prompts_append)

lemma render_writes0 [simp]: "writes (emitted t (renderSecret c t s)) = []"
  using render_writes [of t c "[]" s] by simp

lemma render_prompts0 [simp]: "prompts (emitted t (renderSecret c t s)) = []"
  using render_prompts [of t c "[]" s] by simp

lemma Run_secret_cases:
  assumes "Auth secret = Some auth" and "MFARequirement auth = Some req"
  shows "Run_secret c t secret = renderSecret c (t @ [UIWarn (deferMessage c)]) secret \<or>
         Run_secret c t secret = (t, Panic) \<or>
         (\<exists>name ca m. MFAConstraints req = [(name, Some ca)] \<and> Any ca = [Some m] \<and>
            ID m \<noteq> '''' \<and> interactiveSession c \<and>
            Run_secret c t secret = validateMFA c t (MFARequestID req) (methodInfoOf m))"
proof (cases "interactiveSession c \<and> length (MFAConstraints req) = 1")
  case False
  then show ?thesis
    using Run_secret_defer_many [OF assms] Run_secret_defer_session [OF assms] by blast
next
  case True
  then obtain name mc where cs: "MFAConstraints req = [(name, mc)]"
    by (cases "MFAConstraints req") auto
  show ?thesis
  proof (cases mc)
    case None
    with True cs assms show ?thesis
      by (simp add: Run_secret_def isInteractiveEnabled_def interactiveSession_def)
  next
    case (Some ca)
    with True cs show ?thesis
      using Run_secret_single [OF assms, of name ca c t]
      by (auto split: list.splits option.splits if_splits)
  qed
qed

lemma validateMFA_writes_le: "length (writes (emitted t (validateMFA c t reqID mi))) \<le> 1"
proof -
  obtain evs where "validateMFA c t reqID mi = (t @ collectEvent c mi # evs, snd (validateMFA c t reqID mi))"
    and "length (writes evs) \<le> 1"
    using validateMFA_emits [of c t reqID mi] by blast
  then show ?thesis
    by (metis emitted_append writes_collectEvent)
qed

lemma Run_secret_writes_le: "length (writes (emitted t (Run_secret c t secret))) \<le> 1"
proof (cases "Auth secret = None \<or> (\<exists>auth. Auth secret = Some auth \<and> MFARequirement auth = None)")
  case True
  then show ?thesis by (simp add: Run_secret_plain)
next
  case False
  then obtain auth req where a: "Auth secret = Some auth" "MFARequirement auth = Some req"
    by auto
  from Run_secret_cases [OF a, of c t] show ?thesis
  proof (elim disjE exE conjE)
    assume "Run_secret c t secret = renderSecret c (t @ [UIWarn (deferMessage c)]) secret"
    then show ?thesis by simp
  next
    assume "Run_secret c t secret = (t, Panic)"
    then show ?thesis by (simp add: emitted_def)
  next
    fix m
    assume "Run_secret c t secret = validateMFA c t (MFARequestID req) (methodInfoOf m)"
    then show ?thesis by (simp only: validateMFA_writes_le)
  qed
qed

lemma Run_secret_prefix: "take (length t) (fst (Run_secret c t secret)) = t"
proof (cases "Auth secret = None \<or> (\<exists>auth. Auth secret = Some auth \<and> MFARequirement auth = None)")
  case True
  then show ?thesis by (simp add: Run_secret_plain renderSecret_def)
next
  case False
  then obtain auth req where a: "Auth secret = Some auth" "MFARequirement auth = Some req"
    by auto
  have v: "take (length t) (fst (validateMFA c t reqID mi)) = t" for reqID mi
    using validateMFA_emits [of c t reqID mi] by (metis append_eq_conv_conj fst_conv)
  from Run_secret_cases [OF a, of c t] show ?thesis
    by (auto simp: v renderSecret_def)
qed

lemma Run_secret_split:
  "fst (Run_secret c t secret) = t @ emitted t (Run_secret c t secret)"
  unfolding emitted_def using Run_secret_prefix [of t c secret]
  by (metis append_take_drop_id)

lemma Run_writes_le: "length (writes (fst (Run c args0))) \<le> 2"
proof -
  have s: "length (writes (fst (Run_secret c [LogicalWrite path data] secret))) \<le> 2"
    for path data secret
  proof -
    have "writes (fst (Run_secret c [LogicalWrite path data] secret)) =
          writes [LogicalWrite path data] @
          writes (emitted [LogicalWrite path data] (Run_secret c [LogicalWrite path data] secret))"
      using Run_secret_split [of c "[LogicalWrite path data]" secret] writes_append by metis
    then show ?thesis
      using Run_secret_writes_le [of "[LogicalWrite path data]" c secret] by simp
  qed
  show ?thesis
    by (auto simp: Run_def Let_def s split: prod.splits option.splits)
qed

subsection \<open>The claims\<close>

text \<open>
  C1 (as amended). For a requirement without nil entries behind a response, \<^verbatim>\<open>Run\<close>
  calls \<^verbatim>\<open>validateMFA\<close> with the method exactly when the session is interactive (the
  input is a terminal and the non-interactive flag is not set), the requirement has exactly
  one constraint, that constraint has exactly one method, and the id of that method is not
  empty; in every other case it shows the warning and renders the original response. The
  two behaviours are never equal.
\<close>

theorem evaluate_requirement_needs_method_id:
  assumes "Auth secret = Some auth" and "MFARequirement auth = Some req"
    and "noNil (MFAConstraints req)"
  shows "Run_secret c t secret =
           enact c t secret req
             (case evaluate_requirement_spec req (interactiveSession c) of
                AutoResolve m \<Rightarrow> if ID m \<noteq> '''' then AutoResolve m else Defer
              | Defer \<Rightarrow> Defer)
         \<and> (\<forall>m. enact c t secret req (AutoResolve m) \<noteq> enact c t secret req Defer)"
proof
  show "\<forall>m. enact c t secret req (AutoResolve m) \<noteq> enact c t secret req Defer"
    by (simp add: auto_neq_defer)
  show "Run_secret c t secret =
           enact c t secret req
             (case evaluate_requirement_spec req (interactiveSession c) of
                AutoResolve m \<Rightarrow> if ID m \<noteq> '''' then AutoResolve m else Defer
              | Defer \<Rightarrow> Defer)"
  proof (cases "interactiveSession c \<and> length (MFAConstraints req) = 1")
    case False
    then have "evaluate_requirement_spec req (interactiveSession c) = Defer"
      by (auto simp: evaluate_requirement_spec_def split: list.splits option.splits)
    moreover have "Run_secret c t secret = renderSecret c (t @ [UIWarn (deferMessage c)]) secret"
      using False Run_secret_defer_many [OF assms(1,2)] Run_secret_defer_session [OF assms(1,2)]
      by blast
    ultimately show ?thesis by simp
  next
    case True
    then obtain name mc where cs: "MFAConstraints req = [(name, mc)]"
      by (cases "MFAConstraints req") auto
    with assms(3) obtain ca where mc: "mc = Some ca" and ms: "list_all (\<lambda>m. m \<noteq> None) (Any ca)"
      by (auto simp: noNil_def split: option.splits)
    from True cs mc have "Run_secret c t secret =
           (case Any ca of
              [Some m] \<Rightarrow>
                if ID m \<noteq> '''' then validateMFA c t (MFARequestID req) (methodInfoOf m)
                else renderSecret c (t @ [UIWarn (deferMessage c)]) secret
            | [None] \<Rightarrow> (t, Panic)
            | _ \<Rightarrow> renderSecret c (t @ [UIWarn (deferMessage c)]) secret)"
      using Run_secret_single [OF assms(1,2)] by simp
    with True cs mc ms show ?thesis
      by (auto simp: evaluate_requirement_spec_def split: list.splits option.splits)
  qed
qed

theorem evaluate_requirement_needs_method_id_witness:
  "Auth (secretWith (oneOf totpMethod)) =
     Some \<lparr>MFARequirement = Some (requirementWith (oneOf totpMethod))\<rparr> \<and>
   noNil (MFAConstraints (requirementWith (oneOf totpMethod))) \<and>
   Run_secret exampleEnv [] (secretWith (oneOf totpMethod)) =
     validateMFA exampleEnv [] ''rid'' (methodInfoOf totpMethod) \<and>
   Run_secret exampleEnv [] (secretWith twoConstraints) =
     renderSecret exampleEnv [UIWarn (deferMessage exampleEnv)] (secretWith twoConstraints)"
  using evaluate_requirement_needs_method_id
          [of "secretWith (oneOf totpMethod)"
              "\<lparr>MFARequirement = Some (requirementWith (oneOf totpMethod))\<rparr>"
              "requirementWith (oneOf totpMethod)" exampleEnv "[]"]
        evaluate_requirement_needs_method_id
          [of "secretWith twoConstraints"
              "\<lparr>MFARequirement = Some (requirementWith twoConstraints)\<rparr>"
              "requirementWith twoConstraints" exampleEnv "[]"]
  by (simp add: secretWith_def requirementWith_def oneOf_def twoConstraints_def noNil_def
        totpMethod_def pushMethod_def evaluate_requirement_spec_def interactiveSession_def
        exampleEnv_def)

text \<open>
  C1 as stated fails: an interactive session, one constraint, one method, and the id of the
  method is empty. The decision of the specification is \<open>AutoResolve\<close>; \<^verbatim>\<open>Run\<close> defers.
\<close>

theorem evaluate_requirement_counterexample:
  "evaluate_requirement_spec (requirementWith (oneOf noIdMethod)) (interactiveSession exampleEnv)
     = AutoResolve noIdMethod \<and>
   Run_secret exampleEnv [] (secretWith (oneOf noIdMethod)) =
     ([UIWarn (deferMessage exampleEnv), OutputSecretCall (secretWith (oneOf noIdMethod))],
      Exit 0) \<and>
   Run_secret exampleEnv [] (secretWith (oneOf noIdMethod)) =
     enact exampleEnv [] (secretWith (oneOf noIdMethod)) (requirementWith (oneOf noIdMethod)) Defer \<and>
   Run_secret exampleEnv [] (secretWith (oneOf noIdMethod)) \<noteq>
     enact exampleEnv [] (secretWith (oneOf noIdMethod)) (requirementWith (oneOf noIdMethod))
       (evaluate_requirement_spec (requirementWith (oneOf noIdMethod))
          (interactiveSession exampleEnv))"
proof -
  have d: "evaluate_requirement_spec (requirementWith (oneOf noIdMethod))
             (interactiveSession exampleEnv) = AutoResolve noIdMethod"
    by (simp add: evaluate_requirement_spec_def requirementWith_def oneOf_def
          interactiveSession_def exampleEnv_def)
  have r: "Run_secret exampleEnv [] (secretWith (oneOf noIdMethod)) =
     renderSecret exampleEnv ([] @ [UIWarn (deferMessage exampleEnv)]) (secretWith (oneOf noIdMethod))"
    by (simp add: Run_secret_def secretWith_def requirementWith_def oneOf_def noIdMethod_def
          isInteractiveEnabled_def exampleEnv_def)
  have e: "renderSecret exampleEnv ([] @ [UIWarn (deferMessage exampleEnv)])
             (secretWith (oneOf noIdMethod)) =
           ([UIWarn (deferMessage exampleEnv), OutputSecretCall (secretWith (oneOf noIdMethod))],
            Exit 0)"
    by (simp add: renderSecret_def exampleEnv_def)
  have n: "Run_secret exampleEnv [] (secretWith (oneOf noIdMethod)) \<noteq>
             validateMFA exampleEnv [] reqID mi" for reqID mi
    unfolding r by (rule not_sym) (rule auto_neq_defer)
  show ?thesis
    unfolding d enact.simps using r e n by (metis (no_types))
qed

text \<open>
  C2. When \<^verbatim>\<open>Run\<close> resolves the requirement of a response (request id \<open>rid\<close>, a
  single method with the id \<open>m\<close>) with the collected passcode \<open>p\<close>, which may be
  empty, and \<^verbatim>\<open>c.Client()\<close> gives the client, the writes of the invocation are the
  original write and exactly one write to \<^verbatim>\<open>sys/mfa/validate\<close>, whose body maps
  \<^verbatim>\<open>mfa_request_id\<close> to \<open>rid\<close> and \<^verbatim>\<open>mfa_payload\<close> to the map from \<open>m\<close> to the list
  \<open>[p]\<close>. Both are calls of the same \<open>Write\<close> of the client.
\<close>

theorem confirmation_write_body:
  assumes "originalWrite c args0 path data secret"
    and "Auth secret = Some auth" and "MFARequirement auth = Some req"
    and "MFAConstraints req = [(name, Some ca)]" and "Any ca = [Some m]"
    and "ID m \<noteq> ''''" and "interactiveSession c"
    and "collected c [LogicalWrite path data] (methodInfoOf m) p"
    and "Client c [LogicalWrite path data, collectEvent c (methodInfoOf m)] = None"
  shows "writes (fst (Run c args0)) =
           [(path, data),
            (''sys/mfa/validate'',
             [''mfa_request_id'' \<mapsto> VString (MFARequestID req),
              ''mfa_payload'' \<mapsto> VPayload [ID m \<mapsto> [p]]])]"
proof -
  let ?t = "[LogicalWrite path data]"
  let ?mi = "methodInfoOf m"
  have "Run c args0 = Run_secret c ?t secret"
    using assms(1) by (rule Run_originalWrite)
  also have "\<dots> = validateMFA c ?t (MFARequestID req) ?mi"
    using Run_secret_single [OF assms(2,3,4,7), of ?t] assms(5,6) by simp
  finally have r: "Run c args0 = validateMFA c ?t (MFARequestID req) ?mi" .
  obtain evs where
    e: "validateMFA c ?t (MFARequestID req) ?mi =
          (?t @ collectEvent c ?mi # evs, snd (validateMFA c ?t (MFARequestID req) ?mi))"
    and w: "writes evs = (if Client c (?t @ [collectEvent c ?mi]) = None
                          then [(validatePath, mfaBody (MFARequestID req) ?mi p)] else [])"
    using validateMFA_collected_emits [OF assms(8), of "MFARequestID req"] by blast
  have "writes (fst (Run c args0)) = writes (?t @ collectEvent c ?mi # evs)"
    using r e by (metis fst_conv)
  also have "\<dots> = (path, data) # writes evs"
    by (simp add: writes_collectEvent)
  finally show ?thesis
    using w assms(9) by (simp add: validatePath_def mfaBody_def methodInfoOf_def)
qed

theorem confirmation_write_body_witness:
  "originalWrite exampleEnv [''auth/login'', ''user=u''] ''auth/login'' Map.empty
     (secretWith (oneOf totpMethod)) \<and>
   collected exampleEnv [LogicalWrite ''auth/login'' Map.empty] (methodInfoOf totpMethod) ''123456'' \<and>
   writes (fst (Run exampleEnv [''auth/login'', ''user=u''])) =
     [(''auth/login'', Map.empty),
      (''sys/mfa/validate'',
       [''mfa_request_id'' \<mapsto> VString ''rid'',
        ''mfa_payload'' \<mapsto> VPayload [''m1'' \<mapsto> [''123456'']]])]"
  using confirmation_write_body
          [of exampleEnv "[''auth/login'', ''user=u'']" "''auth/login''" Map.empty
              "secretWith (oneOf totpMethod)"
              "\<lparr>MFARequirement = Some (requirementWith (oneOf totpMethod))\<rparr>"
              "requirementWith (oneOf totpMethod)" "''c1''" "\<lparr>Any = [Some totpMethod]\<rparr>"
              totpMethod "''123456''"]
  by (simp add: originalWrite_def collected_def exampleEnv_def secretWith_def requirementWith_def
        oneOf_def totpMethod_def methodInfoOf_def interactiveSession_def validatePath_def)

text \<open>
  C3 (as amended). When the write to \<^verbatim>\<open>sys/mfa/validate\<close> returns an error,
  \<^verbatim>\<open>validateMFA\<close> reports the error, then renders the response if the server returned
  one with the error, and returns 2: the response is rendered after the error message.
\<close>

theorem failed_confirmation_error_then_body:
  assumes "collected c t mi p"
    and "Client c (t @ [collectEvent c mi]) = None"
    and "Write c (t @ [collectEvent c mi]) validatePath (mfaBody reqID mi p) = (resp, Some err)"
  shows "validateMFA c t reqID mi =
           (t @ [collectEvent c mi, LogicalWrite validatePath (mfaBody reqID mi p), UIError err] @
              (case resp of Some s \<Rightarrow> [OutputSecretCall s] | None \<Rightarrow> []),
            Exit 2)"
proof -
  have "validateMFA c t reqID mi = validateMFA_submit c (t @ [collectEvent c mi]) reqID mi p"
    using assms(1) by (rule validateMFA_collected)
  then show ?thesis
    using assms(2,3) by (simp add: validateMFA_submit_def Let_def split: option.splits)
qed

theorem failed_confirmation_error_then_body_witness:
  "collected rejectingEnv [] (methodInfoOf totpMethod) ''123456'' \<and>
   Client rejectingEnv [collectEvent rejectingEnv (methodInfoOf totpMethod)] = None \<and>
   validateMFA rejectingEnv [] ''rid'' (methodInfoOf totpMethod) =
     ([collectEvent rejectingEnv (methodInfoOf totpMethod),
       LogicalWrite validatePath (mfaBody ''rid'' (methodInfoOf totpMethod) ''123456''),
       UIError ''denied'', OutputSecretCall plainSecret], Exit 2)"
  using failed_confirmation_error_then_body
          [of rejectingEnv "[]" "methodInfoOf totpMethod" "''123456''" "''rid''"
              "Some plainSecret" "''denied''"]
  by (simp add: collected_def rejectingEnv_def exampleEnv_def methodInfoOf_def totpMethod_def)

text \<open>
  C3 as stated fails: the validate endpoint answers with an error and a response. The
  error message is the third event and the rendering of the response the fourth, so the
  response is not rendered before the error message.
\<close>

theorem failed_confirmation_counterexample:
  "emitted [] (validateMFA rejectingEnv [] ''rid'' (methodInfoOf totpMethod)) =
     [UIAskSecret (passcodePrompt rejectingEnv (methodInfoOf totpMethod)),
      LogicalWrite validatePath (mfaBody ''rid'' (methodInfoOf totpMethod) ''123456''),
      UIError ''denied'', OutputSecretCall plainSecret] \<and>
   \<not> precedes (OutputSecretCall plainSecret) (UIError ''denied'')
       (emitted [] (validateMFA rejectingEnv [] ''rid'' (methodInfoOf totpMethod))) \<and>
   precedes (UIError ''denied'') (OutputSecretCall plainSecret)
       (emitted [] (validateMFA rejectingEnv [] ''rid'' (methodInfoOf totpMethod)))"
proof -
  have e: "emitted [] (validateMFA rejectingEnv [] ''rid'' (methodInfoOf totpMethod)) =
     [UIAskSecret (passcodePrompt rejectingEnv (methodInfoOf totpMethod)),
      LogicalWrite validatePath (mfaBody ''rid'' (methodInfoOf totpMethod) ''123456''),
      UIError ''denied'', OutputSecretCall plainSecret]"
    by (simp add: emitted_def validateMFA_def validateMFA_submit_def Let_def rejectingEnv_def
          exampleEnv_def methodInfoOf_def totpMethod_def)
  show ?thesis unfolding e by simp
qed

text \<open>
  C4. When the prompt for the passcode of the single method of a requirement fails, the
  only write of the invocation is the original one (nothing is sent to
  \<^verbatim>\<open>sys/mfa/validate\<close>), the error message ends with the name of the validate endpoint,
  and the invocation exits with code 2.
\<close>

theorem prompt_failure_exits_without_write:
  assumes "originalWrite c args0 path data secret"
    and "Auth secret = Some auth" and "MFARequirement auth = Some req"
    and "MFAConstraints req = [(name, Some ca)]" and "Any ca = [Some m]"
    and "ID m \<noteq> ''''" and "interactiveSession c"
    and "UsesPasscode m"
    and "AskSecret c [LogicalWrite path data] (passcodePrompt c (methodInfoOf m)) = (p, Some err)"
  shows "Run c args0 =
           ([LogicalWrite path data, UIAskSecret (passcodePrompt c (methodInfoOf m)),
             UIError (promptFailedMessage c err)], Exit 2) \<and>
         writes (fst (Run c args0)) = [(path, data)] \<and>
         suffix ''sys/mfa/validate'' (promptFailedMessage c err)"
proof -
  let ?t = "[LogicalWrite path data]"
  let ?mi = "methodInfoOf m"
  have u: "usePasscode ?mi"
    using assms(8) by (simp add: methodInfoOf_def)
  have "Run c args0 = Run_secret c ?t secret"
    using assms(1) by (rule Run_originalWrite)
  also have "\<dots> = validateMFA c ?t (MFARequestID req) ?mi"
    using Run_secret_single [OF assms(2,3,4,7), of ?t] assms(5,6) by simp
  also have "\<dots> = (?t @ [UIAskSecret (passcodePrompt c ?mi), UIError (promptFailedMessage c err)], Exit 2)"
    using u assms(9) by (rule validateMFA_prompt_failed)
  finally have r: "Run c args0 =
           ([LogicalWrite path data, UIAskSecret (passcodePrompt c ?mi),
             UIError (promptFailedMessage c err)], Exit 2)"
    by simp
  have s: "suffix ''sys/mfa/validate'' (promptFailedMessage c err)"
    unfolding promptFailedMessage_def suffix_def by simp
  from r s show ?thesis by simp
qed

theorem prompt_failure_exits_without_write_witness:
  "originalWrite closedInputEnv [''auth/login'', ''user=u''] ''auth/login'' Map.empty
     (secretWith (oneOf totpMethod)) \<and>
   UsesPasscode totpMethod \<and>
   AskSecret closedInputEnv [LogicalWrite ''auth/login'' Map.empty]
     (passcodePrompt closedInputEnv (methodInfoOf totpMethod)) = ('''', Some ''EOF'') \<and>
   snd (Run closedInputEnv [''auth/login'', ''user=u'']) = Exit 2 \<and>
   writes (fst (Run closedInputEnv [''auth/login'', ''user=u''])) = [(''auth/login'', Map.empty)]"
  using prompt_failure_exits_without_write
          [of closedInputEnv "[''auth/login'', ''user=u'']" "''auth/login''" Map.empty
              "secretWith (oneOf totpMethod)"
              "\<lparr>MFARequirement = Some (requirementWith (oneOf totpMethod))\<rparr>"
              "requirementWith (oneOf totpMethod)" "''c1''" "\<lparr>Any = [Some totpMethod]\<rparr>"
              totpMethod "''''" "''EOF''"]
  by (simp add: originalWrite_def closedInputEnv_def exampleEnv_def secretWith_def
        requirementWith_def oneOf_def totpMethod_def interactiveSession_def validatePath_def)

text \<open>
  C5. For a method that uses no passcode, \<^verbatim>\<open>validateMFA\<close> issues no secret prompt, its
  first message is the notice that Vault was asked to validate with the upstream service
  and that a push notification is on its way to the authenticator app, and the body of the
  write it submits (it submits one unless \<^verbatim>\<open>c.Client()\<close> fails) carries the empty string
  as the passcode.
\<close>

theorem push_method_reads_no_input:
  assumes "\<not> usePasscode mi"
  shows "prompts (emitted t (validateMFA c t reqID mi)) = [] \<and>
         (\<exists>evs. emitted t (validateMFA c t reqID mi) =
            UIWarn (''Asking Vault to perform MFA validation with upstream service. '' @
                    ''You should receive a push notification in your authenticator app shortly'')
            # evs \<and> prompts evs = [] \<and> length (writes evs) \<le> 1) \<and>
         writes (emitted t (validateMFA c t reqID mi)) =
           (if Client c (t @ [UIWarn pushMessage]) = None
            then [(''sys/mfa/validate'',
                   [''mfa_request_id'' \<mapsto> VString reqID,
                    ''mfa_payload'' \<mapsto> VPayload [methodID mi \<mapsto> ['''']]])]
            else [])"
proof -
  have ce: "collectEvent c mi = UIWarn pushMessage"
    using assms by (simp add: collectEvent_def)
  have "collected c t mi ''''"
    using assms by (simp add: collected_def)
  then obtain evs where
    e: "validateMFA c t reqID mi =
          (t @ collectEvent c mi # evs, snd (validateMFA c t reqID mi))"
    and w: "writes evs = (if Client c (t @ [collectEvent c mi]) = None
                          then [(validatePath, mfaBody reqID mi '''')] else [])"
    and p: "prompts evs = []"
    using validateMFA_collected_emits [of c t mi "''''" reqID] by blast
  have em: "emitted t (validateMFA c t reqID mi) = UIWarn pushMessage # evs"
    using e ce by (metis emitted_append)
  have l: "length (writes evs) \<le> 1"
    using w by simp
  have lit: "pushMessage =
               ''Asking Vault to perform MFA validation with upstream service. '' @
               ''You should receive a push notification in your authenticator app shortly''"
    by (simp add: pushMessage_def)
  have 1: "prompts (emitted t (validateMFA c t reqID mi)) = []"
    unfolding em using p by simp
  have 2: "\<exists>evs. emitted t (validateMFA c t reqID mi) =
            UIWarn (''Asking Vault to perform MFA validation with upstream service. '' @
                    ''You should receive a push notification in your authenticator app shortly'')
            # evs \<and> prompts evs = [] \<and> length (writes evs) \<le> 1"
    using em p l lit by metis
  have 3: "writes (emitted t (validateMFA c t reqID mi)) =
           (if Client c (t @ [UIWarn pushMessage]) = None
            then [(''sys/mfa/validate'',
                   [''mfa_request_id'' \<mapsto> VString reqID,
                    ''mfa_payload'' \<mapsto> VPayload [methodID mi \<mapsto> ['''']]])]
            else [])"
    unfolding em using w ce by (simp add: validatePath_def mfaBody_def)
  from 1 2 3 show ?thesis by blast
qed

theorem push_method_reads_no_input_witness:
  "\<not> usePasscode (methodInfoOf pushMethod) \<and>
   prompts (emitted [] (validateMFA exampleEnv [] ''rid'' (methodInfoOf pushMethod))) = [] \<and>
   (\<exists>evs. emitted [] (validateMFA exampleEnv [] ''rid'' (methodInfoOf pushMethod)) =
      UIWarn (''Asking Vault to perform MFA validation with upstream service. '' @
              ''You should receive a push notification in your authenticator app shortly'')
      # evs \<and> prompts evs = [] \<and> length (writes evs) \<le> 1) \<and>
   writes (emitted [] (validateMFA exampleEnv [] ''rid'' (methodInfoOf pushMethod))) =
     [(''sys/mfa/validate'',
       [''mfa_request_id'' \<mapsto> VString ''rid'',
        ''mfa_payload'' \<mapsto> VPayload [''m1'' \<mapsto> ['''']]])]"
proof -
  have u: "\<not> usePasscode (methodInfoOf pushMethod)"
    and i: "methodID (methodInfoOf pushMethod) = ''m1''"
    by (simp_all add: methodInfoOf_def pushMethod_def)
  have k: "Client exampleEnv ([] @ [UIWarn pushMessage]) = None"
    by (simp add: exampleEnv_def)
  note th = push_method_reads_no_input [OF u, of "[]" exampleEnv "''rid''"]
  from th [THEN conjunct1] th [THEN conjunct2, THEN conjunct1]
       th [THEN conjunct2, THEN conjunct2] u i k
  show ?thesis by (simp del: append_Nil One_nat_def)
qed

text \<open>
  C6. For a method that uses a passcode and a prompt that succeeds with the string \<open>s\<close>,
  the passcode in the body of the write that \<^verbatim>\<open>validateMFA\<close> submits (it submits one
  unless \<^verbatim>\<open>c.Client()\<close> fails) is \<open>s\<close> itself, whatever \<open>s\<close> is.
\<close>

theorem passcode_is_submitted_unchanged:
  assumes "usePasscode mi"
    and "AskSecret c t (passcodePrompt c mi) = (s, None)"
  shows "writes (emitted t (validateMFA c t reqID mi)) =
           (if Client c (t @ [UIAskSecret (passcodePrompt c mi)]) = None
            then [(''sys/mfa/validate'',
                   [''mfa_request_id'' \<mapsto> VString reqID,
                    ''mfa_payload'' \<mapsto> VPayload [methodID mi \<mapsto> [s]]])]
            else [])"
proof -
  have ce: "collectEvent c mi = UIAskSecret (passcodePrompt c mi)"
    using assms(1) by (simp add: collectEvent_def)
  have "collected c t mi s"
    using assms by (simp add: collected_def)
  then obtain evs where
    e: "validateMFA c t reqID mi =
          (t @ collectEvent c mi # evs, snd (validateMFA c t reqID mi))"
    and w: "writes evs = (if Client c (t @ [collectEvent c mi]) = None
                          then [(validatePath, mfaBody reqID mi s)] else [])"
    using validateMFA_collected_emits [of c t mi s reqID] by blast
  have em: "emitted t (validateMFA c t reqID mi) = UIAskSecret (passcodePrompt c mi) # evs"
    using e ce by (metis emitted_append)
  show ?thesis
    unfolding em using w ce by (simp add: validatePath_def mfaBody_def)
qed

theorem passcode_is_submitted_unchanged_witness:
  "usePasscode (methodInfoOf totpMethod) \<and>
   AskSecret (exampleEnv\<lparr>AskSecret := \<lambda>t msg. ('' 12 34 '', None)\<rparr>) []
     (passcodePrompt (exampleEnv\<lparr>AskSecret := \<lambda>t msg. ('' 12 34 '', None)\<rparr>)
        (methodInfoOf totpMethod)) = ('' 12 34 '', None) \<and>
   writes (emitted [] (validateMFA (exampleEnv\<lparr>AskSecret := \<lambda>t msg. ('' 12 34 '', None)\<rparr>) []
                         ''rid'' (methodInfoOf totpMethod))) =
     [(''sys/mfa/validate'',
       [''mfa_request_id'' \<mapsto> VString ''rid'',
        ''mfa_payload'' \<mapsto> VPayload [''m1'' \<mapsto> ['' 12 34 '']]])]"
  using passcode_is_submitted_unchanged
          [of "methodInfoOf totpMethod" "exampleEnv\<lparr>AskSecret := \<lambda>t msg. ('' 12 34 '', None)\<rparr>"
              "[]" "'' 12 34 ''" "''rid''"]
  by (simp add: methodInfoOf_def totpMethod_def exampleEnv_def)

text \<open>
  C10. A requirement with exactly one constraint whose only method has the empty string as
  its id is not resolved, whether the session is interactive or not: \<^verbatim>\<open>Run\<close> shows the
  deferral warning and renders the original response, with no prompt and no write.
\<close>

theorem empty_method_id_is_deferred:
  assumes "Auth secret = Some auth" and "MFARequirement auth = Some req"
    and "MFAConstraints req = [(name, Some ca)]" and "Any ca = [Some m]"
    and "ID m = ''''"
  shows "Run_secret c t secret = renderSecret c (t @ [UIWarn (deferMessage c)]) secret \<and>
         emitted t (Run_secret c t secret) =
           [UIWarn (deferMessage c),
            if flagField c \<noteq> '''' then PrintRawFieldCall secret (flagField c)
            else OutputSecretCall secret] \<and>
         prompts (emitted t (Run_secret c t secret)) = [] \<and>
         writes (emitted t (Run_secret c t secret)) = []"
proof -
  have r: "Run_secret c t secret = renderSecret c (t @ [UIWarn (deferMessage c)]) secret"
  proof (cases "interactiveSession c")
    case True
    then show ?thesis
      using Run_secret_single [OF assms(1,2,3), of c t] assms(4,5) by simp
  next
    case False
    then show ?thesis
      using Run_secret_defer_session [OF assms(1,2)] by simp
  qed
  show ?thesis
    unfolding r by (simp add: renderSecret_def emitted_def)
qed

theorem empty_method_id_is_deferred_witness:
  "Auth (secretWith (oneOf noIdMethod)) =
     Some \<lparr>MFARequirement = Some (requirementWith (oneOf noIdMethod))\<rparr> \<and>
   ID noIdMethod = '''' \<and> interactiveSession exampleEnv \<and>
   emitted [] (Run_secret exampleEnv [] (secretWith (oneOf noIdMethod))) =
     [UIWarn (deferMessage exampleEnv), OutputSecretCall (secretWith (oneOf noIdMethod))]"
proof -
  have a: "Auth (secretWith (oneOf noIdMethod)) =
             Some \<lparr>MFARequirement = Some (requirementWith (oneOf noIdMethod))\<rparr>"
    by (simp add: secretWith_def)
  have r: "MFARequirement \<lparr>MFARequirement = Some (requirementWith (oneOf noIdMethod))\<rparr> =
             Some (requirementWith (oneOf noIdMethod))"
    by simp
  have cs: "MFAConstraints (requirementWith (oneOf noIdMethod)) =
              [(''c1'', Some \<lparr>Any = [Some noIdMethod]\<rparr>)]"
    by (simp add: requirementWith_def oneOf_def)
  have ms: "Any \<lparr>Any = [Some noIdMethod]\<rparr> = [Some noIdMethod]"
    by simp
  have i: "ID noIdMethod = ''''"
    by (simp add: noIdMethod_def)
  have f: "flagField exampleEnv = ''''" and s: "interactiveSession exampleEnv"
    by (simp_all add: exampleEnv_def interactiveSession_def)
  from empty_method_id_is_deferred [OF a r cs ms i, of exampleEnv "[]", THEN conjunct2,
         THEN conjunct1] a i s f
  show ?thesis by simp
qed

lemma Run_secret_defer_methods:
  assumes "Auth secret = Some auth" and "MFARequirement auth = Some req"
    and "MFAConstraints req = [(name, Some ca)]" and "1 < length (Any ca)"
  shows "Run_secret c t secret = renderSecret c (t @ [UIWarn (deferMessage c)]) secret"
proof (cases "interactiveSession c")
  case True
  then show ?thesis
    using Run_secret_single [OF assms(1,2,3), of c t] assms(4)
    by (auto split: list.splits option.splits)
next
  case False
  then show ?thesis
    using Run_secret_defer_session [OF assms(1,2)] by simp
qed

lemma validateMFA_write_failed:
  assumes "collected c t mi p"
    and "Client c (t @ [collectEvent c mi]) = None"
    and "Write c (t @ [collectEvent c mi]) validatePath (mfaBody reqID mi p) = (resp, Some err)"
  shows "snd (validateMFA c t reqID mi) = Exit 2"
proof -
  have "validateMFA c t reqID mi = validateMFA_submit c (t @ [collectEvent c mi]) reqID mi p"
    using assms(1) by (rule validateMFA_collected)
  then show ?thesis
    using assms(2,3) by (simp add: validateMFA_submit_def Let_def split: option.splits)
qed

text \<open>
  C7. For a response that carries a requirement, \<^verbatim>\<open>Run\<close> enters the confirmation (a
  prompt, the notice of a push or a write appears) only when the requirement has exactly
  one constraint and that constraint has exactly one method; a requirement with several
  constraints, or with several methods in its single constraint, is deferred: the warning
  is shown, the original response is rendered, and nothing is written.
\<close>

theorem confirmation_only_for_single_method:
  assumes "Auth secret = Some auth" and "MFARequirement auth = Some req"
  shows "((writes (emitted t (Run_secret c t secret)) \<noteq> [] \<or>
           prompts (emitted t (Run_secret c t secret)) \<noteq> [] \<or>
           UIWarn pushMessage \<in> set (emitted t (Run_secret c t secret))) \<longrightarrow>
          (\<exists>name ca m. MFAConstraints req = [(name, Some ca)] \<and> Any ca = [Some m])) \<and>
         ((1 < length (MFAConstraints req) \<or>
           (\<exists>name ca. MFAConstraints req = [(name, Some ca)] \<and> 1 < length (Any ca))) \<longrightarrow>
          Run_secret c t secret = renderSecret c (t @ [UIWarn (deferMessage c)]) secret \<and>
          writes (emitted t (Run_secret c t secret)) = [] \<and>
          prompts (emitted t (Run_secret c t secret)) = [])"
proof (intro conjI impI)
  assume active: "writes (emitted t (Run_secret c t secret)) \<noteq> [] \<or>
                  prompts (emitted t (Run_secret c t secret)) \<noteq> [] \<or>
                  UIWarn pushMessage \<in> set (emitted t (Run_secret c t secret))"
  have quiet: "UIWarn pushMessage \<notin>
                 set (emitted t (renderSecret c (t @ [UIWarn (deferMessage c)]) secret))"
    using push_neq_defer [of c] by (simp add: renderSecret_def emitted_def)
  from Run_secret_cases [OF assms, of c t]
  show "\<exists>name ca m. MFAConstraints req = [(name, Some ca)] \<and> Any ca = [Some m]"
  proof (elim disjE exE conjE)
    assume "Run_secret c t secret = renderSecret c (t @ [UIWarn (deferMessage c)]) secret"
    with active quiet show ?thesis by simp
  next
    assume "Run_secret c t secret = (t, Panic)"
    with active show ?thesis by (simp add: emitted_def)
  next
    fix name ca m
    assume "MFAConstraints req = [(name, Some ca)]" and "Any ca = [Some m]"
    then show ?thesis by blast
  qed
next
  assume many: "1 < length (MFAConstraints req) \<or>
                (\<exists>name ca. MFAConstraints req = [(name, Some ca)] \<and> 1 < length (Any ca))"
  then have d: "Run_secret c t secret = renderSecret c (t @ [UIWarn (deferMessage c)]) secret"
    using Run_secret_defer_many [OF assms, of c t] Run_secret_defer_methods [OF assms, of _ _ c t]
    by auto
  then show "Run_secret c t secret = renderSecret c (t @ [UIWarn (deferMessage c)]) secret" .
  from d show "writes (emitted t (Run_secret c t secret)) = []" by simp
  from d show "prompts (emitted t (Run_secret c t secret)) = []" by simp
qed

theorem confirmation_only_for_single_method_witness:
  "Auth (secretWith twoConstraints) =
     Some \<lparr>MFARequirement = Some (requirementWith twoConstraints)\<rparr> \<and>
   1 < length (MFAConstraints (requirementWith twoConstraints)) \<and>
   Run_secret exampleEnv [] (secretWith twoConstraints) =
     renderSecret exampleEnv [UIWarn (deferMessage exampleEnv)] (secretWith twoConstraints) \<and>
   writes (emitted [] (Run_secret exampleEnv [] (secretWith twoConstraints))) = [] \<and>
   writes (emitted [] (Run_secret exampleEnv [] (secretWith (oneOf totpMethod)))) \<noteq> [] \<and>
   (\<exists>name ca m. MFAConstraints (requirementWith (oneOf totpMethod)) = [(name, Some ca)] \<and>
      Any ca = [Some m])"
proof -
  have a: "Auth (secretWith cs) = Some \<lparr>MFARequirement = Some (requirementWith cs)\<rparr>" for cs
    by (simp add: secretWith_def)
  have r: "MFARequirement \<lparr>MFARequirement = Some (requirementWith cs)\<rparr> =
             Some (requirementWith cs)" for cs
    by simp
  have n: "1 < length (MFAConstraints (requirementWith twoConstraints))"
    by (simp add: requirementWith_def twoConstraints_def)
  have w: "writes (emitted [] (Run_secret exampleEnv [] (secretWith (oneOf totpMethod)))) \<noteq> []"
    by (simp add: emitted_def Run_secret_def validateMFA_def validateMFA_submit_def Let_def
          isInteractiveEnabled_def secretWith_def requirementWith_def oneOf_def totpMethod_def
          exampleEnv_def)
  from confirmation_only_for_single_method [OF a r, of "[]" exampleEnv twoConstraints,
         THEN conjunct2] n
  have d: "Run_secret exampleEnv [] (secretWith twoConstraints) =
             renderSecret exampleEnv [UIWarn (deferMessage exampleEnv)] (secretWith twoConstraints) \<and>
           writes (emitted [] (Run_secret exampleEnv [] (secretWith twoConstraints))) = []"
    by (simp add: renderSecret_def emitted_def)
  from confirmation_only_for_single_method [OF a r, of "[]" exampleEnv "oneOf totpMethod",
         THEN conjunct1] w
  have s: "\<exists>name ca m. MFAConstraints (requirementWith (oneOf totpMethod)) = [(name, Some ca)] \<and>
             Any ca = [Some m]"
    by blast
  from a n d w s show ?thesis by blast
qed

text \<open>
  C8 (as amended). After the passcode is collected, \<^verbatim>\<open>validateMFA\<close> renders a response
  of the confirmation that is not nil as \<^verbatim>\<open>Run\<close> renders the response of an ordinary
  write: the requested field is printed if one is requested and the whole response
  otherwise, and the exit code is the one that this rendering returns. For an empty
  response the success message is shown only in the table format, and the exit code is 0.
  The exit code is 2 when the client is not available or the write returns an error.
\<close>

theorem confirmation_response_rendering:
  assumes "collected c t mi p"
    and "t1 = t @ [collectEvent c mi]"
    and "b = mfaBody reqID mi p"
    and "t2 = t1 @ [LogicalWrite ''sys/mfa/validate'' b]"
  shows
    "(Client c t1 = None \<and> Write c t1 ''sys/mfa/validate'' b = (Some s, None) \<longrightarrow>
        validateMFA c t reqID mi =
          (if flagField c \<noteq> ''''
           then (t2 @ [PrintRawFieldCall s (flagField c)],
                 Exit (PrintRawField c t2 s (flagField c)))
           else (t2 @ [OutputSecretCall s], Exit (OutputSecret c t2 s)))) \<and>
     (originalWrite c args0 path data s' \<and> Auth s' = None \<longrightarrow>
        Run c args0 =
          (if flagField c \<noteq> ''''
           then ([LogicalWrite path data, PrintRawFieldCall s' (flagField c)],
                 Exit (PrintRawField c [LogicalWrite path data] s' (flagField c)))
           else ([LogicalWrite path data, OutputSecretCall s'],
                 Exit (OutputSecret c [LogicalWrite path data] s')))) \<and>
     (Client c t1 = None \<and> Write c t1 ''sys/mfa/validate'' b = (None, None) \<longrightarrow>
        validateMFA c t reqID mi =
          (if Format c = ''table''
           then t2 @ [UIInfo ''Success! Data written to: sys/mfa/validate''] else t2,
           Exit 0)) \<and>
     (Client c t1 = Some err \<longrightarrow>
        validateMFA c t reqID mi = (t1 @ [UIError err], Exit 2)) \<and>
     (Client c t1 = None \<and> Write c t1 ''sys/mfa/validate'' b = (resp, Some err) \<longrightarrow>
        (\<exists>evs. validateMFA c t reqID mi = (t2 @ UIError err # evs, Exit 2)))"
proof -
  have v: "validateMFA c t reqID mi = validateMFA_submit c t1 reqID mi p"
    using assms(1,2) by (simp add: validateMFA_collected)
  have 1: "Client c t1 = None \<and> Write c t1 ''sys/mfa/validate'' b = (Some s, None) \<longrightarrow>
        validateMFA c t reqID mi =
          (if flagField c \<noteq> ''''
           then (t2 @ [PrintRawFieldCall s (flagField c)],
                 Exit (PrintRawField c t2 s (flagField c)))
           else (t2 @ [OutputSecretCall s], Exit (OutputSecret c t2 s)))"
    unfolding v using assms(3,4)
    by (simp add: validateMFA_submit_def renderSecret_def validatePath_def Let_def)
  have 2: "originalWrite c args0 path data s' \<and> Auth s' = None \<longrightarrow>
        Run c args0 =
          (if flagField c \<noteq> ''''
           then ([LogicalWrite path data, PrintRawFieldCall s' (flagField c)],
                 Exit (PrintRawField c [LogicalWrite path data] s' (flagField c)))
           else ([LogicalWrite path data, OutputSecretCall s'],
                 Exit (OutputSecret c [LogicalWrite path data] s')))"
  proof
    assume h: "originalWrite c args0 path data s' \<and> Auth s' = None"
    then have "Run c args0 = Run_secret c [LogicalWrite path data] s'"
      using Run_originalWrite by blast
    also have "\<dots> = renderSecret c [LogicalWrite path data] s'"
      using h by (simp add: Run_secret_plain)
    finally show "Run c args0 =
          (if flagField c \<noteq> ''''
           then ([LogicalWrite path data, PrintRawFieldCall s' (flagField c)],
                 Exit (PrintRawField c [LogicalWrite path data] s' (flagField c)))
           else ([LogicalWrite path data, OutputSecretCall s'],
                 Exit (OutputSecret c [LogicalWrite path data] s')))"
      by (simp add: renderSecret_def)
  qed
  have 3: "Client c t1 = None \<and> Write c t1 ''sys/mfa/validate'' b = (None, None) \<longrightarrow>
        validateMFA c t reqID mi =
          (if Format c = ''table''
           then t2 @ [UIInfo ''Success! Data written to: sys/mfa/validate''] else t2,
           Exit 0)"
    unfolding v using assms(3,4)
    by (simp add: validateMFA_submit_def successMessage_def validatePath_def Let_def)
  have 4: "Client c t1 = Some err \<longrightarrow>
        validateMFA c t reqID mi = (t1 @ [UIError err], Exit 2)"
    unfolding v by (simp add: validateMFA_submit_def)
  have 5: "Client c t1 = None \<and> Write c t1 ''sys/mfa/validate'' b = (resp, Some err) \<longrightarrow>
        (\<exists>evs. validateMFA c t reqID mi = (t2 @ UIError err # evs, Exit 2))"
    unfolding v using assms(3,4)
    by (simp add: validateMFA_submit_def validatePath_def Let_def split: option.splits)
  from 1 2 3 4 5 show ?thesis by blast
qed

theorem confirmation_response_rendering_witness:
  "collected exampleEnv [] (methodInfoOf totpMethod) ''123456'' \<and>
   Client exampleEnv [collectEvent exampleEnv (methodInfoOf totpMethod)] = None \<and>
   Format exampleEnv = ''table'' \<and>
   validateMFA exampleEnv [] ''rid'' (methodInfoOf totpMethod) =
     ([collectEvent exampleEnv (methodInfoOf totpMethod),
       LogicalWrite ''sys/mfa/validate'' (mfaBody ''rid'' (methodInfoOf totpMethod) ''123456''),
       UIInfo ''Success! Data written to: sys/mfa/validate''], Exit 0) \<and>
   validateMFA (exampleEnv\<lparr>Write := \<lambda>t path b. (Some plainSecret, None)\<rparr>) []
       ''rid'' (methodInfoOf totpMethod) =
     ([collectEvent exampleEnv (methodInfoOf totpMethod),
       LogicalWrite ''sys/mfa/validate'' (mfaBody ''rid'' (methodInfoOf totpMethod) ''123456''),
       OutputSecretCall plainSecret], Exit 0) \<and>
   originalWrite (exampleEnv\<lparr>Write := \<lambda>t path b. (Some plainSecret, None)\<rparr>)
     [''secret/x'', ''k=v''] ''secret/x'' Map.empty plainSecret \<and>
   Auth plainSecret = None \<and>
   Run (exampleEnv\<lparr>Write := \<lambda>t path b. (Some plainSecret, None)\<rparr>) [''secret/x'', ''k=v''] =
     ([LogicalWrite ''secret/x'' Map.empty, OutputSecretCall plainSecret], Exit 0) \<and>
   validateMFA (exampleEnv\<lparr>Client := \<lambda>t. Some ''no client''\<rparr>) []
       ''rid'' (methodInfoOf totpMethod) =
     ([collectEvent exampleEnv (methodInfoOf totpMethod), UIError ''no client''], Exit 2) \<and>
   Write rejectingEnv [collectEvent exampleEnv (methodInfoOf totpMethod)] ''sys/mfa/validate''
       (mfaBody ''rid'' (methodInfoOf totpMethod) ''123456'') = (Some plainSecret, Some ''denied'') \<and>
   snd (validateMFA rejectingEnv [] ''rid'' (methodInfoOf totpMethod)) = Exit 2"
proof -
  let ?mi = "methodInfoOf totpMethod"
  let ?e = "UIAskSecret (passcodePrompt exampleEnv ?mi)"
  let ?b = "mfaBody ''rid'' ?mi ''123456''"
  let ?answering = "exampleEnv\<lparr>Write := \<lambda>t path b. (Some plainSecret, None)\<rparr>"
  let ?noClient = "exampleEnv\<lparr>Client := \<lambda>t. Some ''no client''\<rparr>"
  have q: "passcodePrompt ?answering ?mi = passcodePrompt exampleEnv ?mi"
          "passcodePrompt ?noClient ?mi = passcodePrompt exampleEnv ?mi"
          "passcodePrompt rejectingEnv ?mi = passcodePrompt exampleEnv ?mi"
    by (simp_all add: passcodePrompt_def rejectingEnv_def)
  have u: "usePasscode ?mi"
    by (simp add: methodInfoOf_def totpMethod_def)
  have ce: "collectEvent exampleEnv ?mi = ?e" "collectEvent ?answering ?mi = ?e"
           "collectEvent ?noClient ?mi = ?e" "collectEvent rejectingEnv ?mi = ?e"
    using u q by (simp_all add: collectEvent_def)
  have c: "collected exampleEnv [] ?mi ''123456''" "collected ?answering [] ?mi ''123456''"
          "collected ?noClient [] ?mi ''123456''" "collected rejectingEnv [] ?mi ''123456''"
    using u by (simp_all add: collected_def exampleEnv_def rejectingEnv_def)
  have k: "Client exampleEnv [?e] = None" "Client ?answering [?e] = None"
          "Client rejectingEnv [?e] = None" "Client ?noClient [?e] = Some ''no client''"
    and f: "Format exampleEnv = ''table''"
    and g: "flagField ?answering = ''''"
    and o: "OutputSecret ?answering t s = 0" for t s
    by (simp_all add: exampleEnv_def rejectingEnv_def)
  have w: "Write exampleEnv [?e] ''sys/mfa/validate'' ?b = (None, None)"
          "Write ?answering [?e] ''sys/mfa/validate'' ?b = (Some plainSecret, None)"
          "Write rejectingEnv [?e] ''sys/mfa/validate'' ?b = (Some plainSecret, Some ''denied'')"
    by (simp_all add: exampleEnv_def rejectingEnv_def validatePath_def)
  have a: "Auth plainSecret = None"
    by (simp add: plainSecret_def)
  have ow: "originalWrite ?answering [''secret/x'', ''k=v''] ''secret/x'' Map.empty plainSecret"
    by (simp add: originalWrite_def exampleEnv_def)
  note th = confirmation_response_rendering
              [OF c(1) refl refl refl, of "''rid''" plainSecret "[]" "''secret/x''" Map.empty
                  plainSecret "''none''" None, unfolded ce append_Nil append_Cons]
  note tha = confirmation_response_rendering
              [OF c(2) refl refl refl, of "''rid''" plainSecret "[''secret/x'', ''k=v'']"
                  "''secret/x''" Map.empty plainSecret "''none''" None,
               unfolded ce append_Nil append_Cons]
  note thn = confirmation_response_rendering
              [OF c(3) refl refl refl, of "''rid''" plainSecret "[]" "''secret/x''" Map.empty
                  plainSecret "''no client''" None, unfolded ce append_Nil append_Cons]
  note thr = confirmation_response_rendering
              [OF c(4) refl refl refl, of "''rid''" plainSecret "[]" "''secret/x''" Map.empty
                  plainSecret "''denied''" "Some plainSecret", unfolded ce append_Nil append_Cons]
  have v: "validateMFA exampleEnv [] ''rid'' ?mi =
     ([?e, LogicalWrite ''sys/mfa/validate'' ?b,
       UIInfo ''Success! Data written to: sys/mfa/validate''], Exit 0)"
    using th k(1) w(1) f by simp
  have s: "validateMFA ?answering [] ''rid'' ?mi =
     ([?e, LogicalWrite ''sys/mfa/validate'' ?b, OutputSecretCall plainSecret], Exit 0)"
    using tha k(2) w(2) g o by simp
  have r: "Run ?answering [''secret/x'', ''k=v''] =
     ([LogicalWrite ''secret/x'' Map.empty, OutputSecretCall plainSecret], Exit 0)"
    using tha ow a g o by simp
  have n: "validateMFA ?noClient [] ''rid'' ?mi = ([?e, UIError ''no client''], Exit 2)"
    using thn k(4) by simp
  have x: "snd (validateMFA rejectingEnv [] ''rid'' ?mi) = Exit 2"
    using thr k(3) w(3) by auto
  from c(1) k(1) f v s ow a r n w(3) x show ?thesis
    unfolding ce by blast
qed

text \<open>
  C8 as stated fails: the response of the write carries a requirement with a single method,
  the prompt answers, the confirmation succeeds with a response, and the field requested
  with \<^verbatim>\<open>-field\<close> is not in it. \<^verbatim>\<open>validateMFA\<close> returns what \<^verbatim>\<open>PrintRawField\<close> returns,
  and the invocation exits with 1: neither 0, though the confirmation succeeded, nor 2.
\<close>

theorem confirmation_exit_code_counterexample:
  "originalWrite missingFieldEnv [''auth/login'', ''user=u''] ''auth/login'' Map.empty
     (secretWith (oneOf totpMethod)) \<and>
   Client missingFieldEnv
     [LogicalWrite ''auth/login'' Map.empty,
      UIAskSecret (passcodePrompt missingFieldEnv (methodInfoOf totpMethod))] = None \<and>
   Write missingFieldEnv
     [LogicalWrite ''auth/login'' Map.empty,
      UIAskSecret (passcodePrompt missingFieldEnv (methodInfoOf totpMethod))]
     ''sys/mfa/validate'' (mfaBody ''rid'' (methodInfoOf totpMethod) ''123456'') =
     (Some plainSecret, None) \<and>
   Run missingFieldEnv [''auth/login'', ''user=u''] =
     ([LogicalWrite ''auth/login'' Map.empty,
       UIAskSecret (passcodePrompt missingFieldEnv (methodInfoOf totpMethod)),
       LogicalWrite ''sys/mfa/validate'' (mfaBody ''rid'' (methodInfoOf totpMethod) ''123456''),
       PrintRawFieldCall plainSecret ''missing''], Exit 1) \<and>
   snd (Run missingFieldEnv [''auth/login'', ''user=u'']) \<noteq> Exit 0 \<and>
   snd (Run missingFieldEnv [''auth/login'', ''user=u'']) \<noteq> Exit 2"
proof -
  have ow: "originalWrite missingFieldEnv [''auth/login'', ''user=u''] ''auth/login'' Map.empty
              (secretWith (oneOf totpMethod))"
    by (simp add: originalWrite_def missingFieldEnv_def exampleEnv_def validatePath_def)
  have k: "Client missingFieldEnv t = None" for t
    by (simp add: missingFieldEnv_def exampleEnv_def)
  have w: "Write missingFieldEnv t ''sys/mfa/validate'' b = (Some plainSecret, None)" for t b
    by (simp add: missingFieldEnv_def exampleEnv_def validatePath_def)
  have p: "PrintRawField missingFieldEnv t plainSecret ''missing'' = 1" for t
    by (simp add: missingFieldEnv_def exampleEnv_def plainSecret_def)
  have f: "flagField missingFieldEnv = ''missing''"
    and i: "IsTerminal missingFieldEnv" "\<not> flagNonInteractive missingFieldEnv"
    and a: "AskSecret missingFieldEnv t msg = (''123456'', None)" for t msg
    by (simp_all add: missingFieldEnv_def exampleEnv_def)
  have "Run missingFieldEnv [''auth/login'', ''user=u''] =
          Run_secret missingFieldEnv [LogicalWrite ''auth/login'' Map.empty]
            (secretWith (oneOf totpMethod))"
    using ow by (rule Run_originalWrite)
  also have "\<dots> = validateMFA missingFieldEnv [LogicalWrite ''auth/login'' Map.empty] ''rid''
                      (methodInfoOf totpMethod)"
    using i by (simp add: Run_secret_def secretWith_def requirementWith_def oneOf_def
                  isInteractiveEnabled_def methodInfoOf_def totpMethod_def)
  also have "\<dots> = ([LogicalWrite ''auth/login'' Map.empty,
       UIAskSecret (passcodePrompt missingFieldEnv (methodInfoOf totpMethod)),
       LogicalWrite ''sys/mfa/validate'' (mfaBody ''rid'' (methodInfoOf totpMethod) ''123456''),
       PrintRawFieldCall plainSecret ''missing''], Exit 1)"
    using k w p f a
    by (simp add: validateMFA_def validateMFA_submit_def renderSecret_def validatePath_def
          Let_def methodInfoOf_def totpMethod_def)
  finally have r: "Run missingFieldEnv [''auth/login'', ''user=u''] =
     ([LogicalWrite ''auth/login'' Map.empty,
       UIAskSecret (passcodePrompt missingFieldEnv (methodInfoOf totpMethod)),
       LogicalWrite ''sys/mfa/validate'' (mfaBody ''rid'' (methodInfoOf totpMethod) ''123456''),
       PrintRawFieldCall plainSecret ''missing''], Exit 1)" .
  from ow k w r show ?thesis by simp
qed

text \<open>
  C9. \<^verbatim>\<open>validateMFA\<close> writes at most once, so \<^verbatim>\<open>Run\<close> writes at most once after the
  original write and at most twice in all. When the write to \<^verbatim>\<open>sys/mfa/validate\<close>
  returns an error, that write is the only one of \<^verbatim>\<open>validateMFA\<close>, which returns 2.
\<close>

theorem confirmation_write_at_most_once:
  "length (writes (emitted t (validateMFA c t reqID mi))) \<le> 1 \<and>
   length (writes (emitted t (Run_secret c t secret))) \<le> 1 \<and>
   length (writes (fst (Run c args0))) \<le> 2 \<and>
   (collected c t mi p \<and> Client c (t @ [collectEvent c mi]) = None \<and>
    Write c (t @ [collectEvent c mi]) validatePath (mfaBody reqID mi p) = (resp, Some err) \<longrightarrow>
      writes (emitted t (validateMFA c t reqID mi)) = [(validatePath, mfaBody reqID mi p)] \<and>
      snd (validateMFA c t reqID mi) = Exit 2)"
proof (intro conjI impI)
  show "length (writes (emitted t (validateMFA c t reqID mi))) \<le> 1"
    by (rule validateMFA_writes_le)
  show "length (writes (emitted t (Run_secret c t secret))) \<le> 1"
    by (rule Run_secret_writes_le)
  show "length (writes (fst (Run c args0))) \<le> 2"
    by (rule Run_writes_le)
next
  assume h: "collected c t mi p \<and> Client c (t @ [collectEvent c mi]) = None \<and>
    Write c (t @ [collectEvent c mi]) validatePath (mfaBody reqID mi p) = (resp, Some err)"
  then show "snd (validateMFA c t reqID mi) = Exit 2"
    using validateMFA_write_failed by blast
  from h obtain evs where
    e: "validateMFA c t reqID mi =
          (t @ collectEvent c mi # evs, snd (validateMFA c t reqID mi))"
    and w: "writes evs = (if Client c (t @ [collectEvent c mi]) = None
                          then [(validatePath, mfaBody reqID mi p)] else [])"
    using validateMFA_collected_emits [of c t mi p reqID] by blast
  have "emitted t (validateMFA c t reqID mi) = collectEvent c mi # evs"
    using e by (metis emitted_append)
  then show "writes (emitted t (validateMFA c t reqID mi)) = [(validatePath, mfaBody reqID mi p)]"
    using w h by (simp add: writes_collectEvent)
qed

theorem confirmation_write_at_most_once_witness:
  "collected rejectingEnv [] (methodInfoOf totpMethod) ''123456'' \<and>
   Client rejectingEnv [collectEvent rejectingEnv (methodInfoOf totpMethod)] = None \<and>
   Write rejectingEnv [collectEvent rejectingEnv (methodInfoOf totpMethod)] validatePath
     (mfaBody ''rid'' (methodInfoOf totpMethod) ''123456'') = (Some plainSecret, Some ''denied'') \<and>
   writes (emitted [] (validateMFA rejectingEnv [] ''rid'' (methodInfoOf totpMethod))) =
     [(validatePath, mfaBody ''rid'' (methodInfoOf totpMethod) ''123456'')] \<and>
   snd (validateMFA rejectingEnv [] ''rid'' (methodInfoOf totpMethod)) = Exit 2"
proof -
  let ?mi = "methodInfoOf totpMethod"
  have c: "collected rejectingEnv [] ?mi ''123456''"
    by (simp add: collected_def rejectingEnv_def exampleEnv_def methodInfoOf_def totpMethod_def)
  have k: "Client rejectingEnv [collectEvent rejectingEnv ?mi] = None"
    and w: "Write rejectingEnv [collectEvent rejectingEnv ?mi] validatePath
              (mfaBody ''rid'' ?mi ''123456'') = (Some plainSecret, Some ''denied'')"
    by (simp_all add: rejectingEnv_def exampleEnv_def)
  from confirmation_write_at_most_once
         [of "[]" rejectingEnv "''rid''" ?mi plainSecret "[]" "''123456''" "Some plainSecret"
             "''denied''"] c k w
  show ?thesis by simp
qed

end
